theory Spec2Isabelle
  imports Complex_Main "HOL-Library.Char_ord" "HOL-Library.List_Lexorder"
    "HOL-Library.Product_Lexorder"
begin

section \<open>Data model\<close>

text \<open>
  A pandas cell is a missing value (NaN/None), a number or a string. Numbers are
  rationals: the counts, fatality totals and years of the dashboard are small integers,
  and means and medians of them are fractions; float rounding is not modelled.
\<close>

datatype cell = NA | Num rat | Str string

text \<open>
  A data frame is its column names and its rows. A row maps column names to cells; a
  column that a row does not mention holds a missing value there, as in a frame built
  from a list of records.
\<close>

type_synonym row = "(string \<times> cell) list"

record dataframe =
  columns :: "string list"
  rows :: "row list"

definition cell_at :: "row \<Rightarrow> string \<Rightarrow> cell" where
  "cell_at r c = (case map_of r c of None \<Rightarrow> NA | Some v \<Rightarrow> v)"

definition column :: "dataframe \<Rightarrow> string \<Rightarrow> cell list" where
  "column df c = map (\<lambda>r. cell_at r c) (rows df)"

text \<open>
  The values a chart configuration holds are strings or None. The configuration is a
  Python dict: an absent key and a key holding None are different things
  (\<^verbatim>\<open>config['k']\<close> raises on the first, \<^verbatim>\<open>config.get('k', d)\<close> gives \<open>d\<close> on the
  first and None on the second).
\<close>

datatype pyval = PNone | PStr string

type_synonym config = "string \<rightharpoonup> pyval"

datatype py_error = KeyError | TypeError | ValueError | AttributeError

text \<open>What the presentation layer is told: \<^verbatim>\<open>st.error\<close> and \<^verbatim>\<open>st.warning\<close>.\<close>

datatype diagnostic = StError string py_error | StWarning string

definition truthy :: "pyval \<Rightarrow> bool" where
  "truthy v = (case v of PNone \<Rightarrow> False | PStr s \<Rightarrow> s \<noteq> [])"

definition cfg_item :: "config \<Rightarrow> string \<Rightarrow> py_error + pyval" where
  "cfg_item c k = (case c k of None \<Rightarrow> Inl KeyError | Some v \<Rightarrow> Inr v)"

definition cfg_get :: "config \<Rightarrow> string \<Rightarrow> pyval \<Rightarrow> pyval" where
  "cfg_get c k d = (case c k of None \<Rightarrow> d | Some v \<Rightarrow> v)"

definition and_then :: "py_error + 'a \<Rightarrow> ('a \<Rightarrow> py_error + 'b) \<Rightarrow> py_error + 'b" where
  "and_then m f = (case m of Inl e \<Rightarrow> Inl e | Inr x \<Rightarrow> f x)"

section \<open>Grouping (pandas \<^verbatim>\<open>groupby\<close>)\<close>

text \<open>
  \<^verbatim>\<open>df.groupby(x)\<close> raises KeyError when \<open>x\<close> names no column and TypeError when \<open>x\<close> is
  None. With its defaults (\<^verbatim>\<open>sort=True\<close>, \<^verbatim>\<open>dropna=True\<close>) the groups are the distinct
  values of the column that are not missing, in ascending order; rows whose key is
  missing belong to no group. Numbers sort before strings, strings by code point.
\<close>

definition cell_key :: "cell \<Rightarrow> nat \<times> rat \<times> string" where
  "cell_key c = (case c of NA \<Rightarrow> (0, 0, []) | Num q \<Rightarrow> (1, q, []) | Str s \<Rightarrow> (2, 0, s))"

definition group_keys :: "dataframe \<Rightarrow> string \<Rightarrow> cell list" where
  "group_keys df x = sort_key cell_key (remdups (filter (\<lambda>c. c \<noteq> NA) (column df x)))"

definition group_rows :: "dataframe \<Rightarrow> string \<Rightarrow> cell \<Rightarrow> row list" where
  "group_rows df x k = filter (\<lambda>r. cell_at r x = k) (rows df)"

definition groupby :: "dataframe \<Rightarrow> pyval \<Rightarrow> py_error + (string \<times> cell list)" where
  "groupby df by = (case by of
       PNone \<Rightarrow> Inl TypeError
     | PStr x \<Rightarrow> if x \<in> set (columns df) then Inr (x, group_keys df x) else Inl KeyError)"

text \<open>
  \<^verbatim>\<open>df.groupby(x).size().reset_index(name='count')\<close>: one row per group, the key under
  the name of the grouping column and the group's number of rows under \<open>count\<close>.
  \<^verbatim>\<open>reset_index\<close> raises ValueError when the grouping column is itself called \<open>count\<close>.
\<close>

definition groupby_size :: "dataframe \<Rightarrow> pyval \<Rightarrow> py_error + dataframe" where
  "groupby_size df by =
     and_then (groupby df by) (\<lambda>(x, keys).
       if x = ''count'' then Inl ValueError
       else Inr \<lparr>columns = [x, ''count''],
                 rows = map (\<lambda>k. [(x, k), (''count'', Num (of_nat (length (group_rows df x k))))]) keys\<rparr>)"

text \<open>
  \<^verbatim>\<open>df.groupby(x)[y].agg(a).reset_index()\<close>: KeyError when \<open>y\<close> names no column, then the
  reduction of each group's \<open>y\<close> cells, then ValueError from \<^verbatim>\<open>reset_index\<close> when \<open>x\<close> and
  \<open>y\<close> are the same column. The reduction itself is the library's and is a parameter
  \<open>agg\<close>: the name of the statistic and the cells of one group give a cell or an error.
\<close>

type_synonym reducer = "string \<Rightarrow> cell list \<Rightarrow> py_error + cell"

fun reduce_groups :: "(cell list \<Rightarrow> py_error + cell) \<Rightarrow> dataframe \<Rightarrow> string \<Rightarrow> string
    \<Rightarrow> cell list \<Rightarrow> py_error + row list" where
  "reduce_groups f df x y [] = Inr []"
| "reduce_groups f df x y (k # ks) =
     and_then (f (map (\<lambda>r. cell_at r y) (group_rows df x k))) (\<lambda>v.
       and_then (reduce_groups f df x y ks) (\<lambda>rs. Inr ([(x, k), (y, v)] # rs)))"

definition groupby_agg :: "(cell list \<Rightarrow> py_error + cell) \<Rightarrow> dataframe \<Rightarrow> pyval \<Rightarrow> pyval
    \<Rightarrow> py_error + dataframe" where
  "groupby_agg f df by target =
     and_then (groupby df by) (\<lambda>(x, keys).
       case target of
         PNone \<Rightarrow> Inl KeyError
       | PStr y \<Rightarrow>
           if y \<notin> set (columns df) then Inl KeyError
           else and_then (reduce_groups f df x y keys) (\<lambda>rs.
             if x = y then Inl ValueError else Inr \<lparr>columns = [x, y], rows = rs\<rparr>))"

section \<open>The aggregation engine: \<^verbatim>\<open>prepare_chart_data\<close>\<close>

text \<open>
  The body of the \<^verbatim>\<open>try\<close> block. It returns the table and the configuration as the
  call leaves it: the \<open>count\<close> branch stores \<open>'count'\<close> under \<open>y_field\<close> in the dict it
  was given. The test \<^verbatim>\<open>aggregation == 'none' or config['chart_type'] in [...]\<close> reads
  \<open>chart_type\<close> only when the aggregation is not \<open>'none'\<close>.
\<close>

definition prepare_body :: "reducer \<Rightarrow> dataframe \<Rightarrow> config \<Rightarrow> py_error + (dataframe \<times> config)" where
  "prepare_body agg df config =
     and_then (cfg_item config ''x_field'') (\<lambda>x_field.
       let y_field = cfg_get config ''y_field'' PNone;
           aggregation = cfg_get config ''aggregation'' (PStr ''count'')
       in and_then
            (if aggregation = PStr ''none'' then Inr True
             else and_then (cfg_item config ''chart_type'') (\<lambda>chart_type.
                    Inr (chart_type \<in> set [PStr ''scatter'', PStr ''histogram''])))
            (\<lambda>raw.
               if raw then Inr (df, config)
               else if aggregation = PStr ''count'' then
                 and_then (groupby_size df x_field) (\<lambda>result.
                   Inr (result, config(''y_field'' \<mapsto> PStr ''count'')))
               else if truthy y_field \<and> aggregation \<in> set (map PStr
                         [''sum'', ''mean'', ''median'', ''min'', ''max'']) then
                 (case aggregation of
                    PNone \<Rightarrow> Inr (df, config)
                  | PStr a \<Rightarrow>
                      and_then
                        (if a = ''median'' then groupby_agg (agg ''median'') df x_field y_field
                         else groupby_agg (agg a) df x_field y_field)
                        (\<lambda>result. Inr (result, config)))
               else Inr (df, config)))"

text \<open>
  The whole function: the table or None, the configuration after the call, and the
  diagnostics shown. An exception leaves the configuration as it was, since the only
  assignment to it is followed by the \<^verbatim>\<open>return\<close>.
\<close>

definition prepare_chart_data :: "reducer \<Rightarrow> dataframe \<Rightarrow> config
    \<Rightarrow> dataframe option \<times> config \<times> diagnostic list" where
  "prepare_chart_data agg df config =
     (case prepare_body agg df config of
        Inr (result, config') \<Rightarrow> (Some result, config', [])
      | Inl e \<Rightarrow> (None, config, [StError ''Data preparation error'' e]))"

text \<open>
  Python dicts are objects: the caller and the callee see the same dict unless one of
  them works on a copy. A store holds the dicts, an address is an index into it;
  \<^verbatim>\<open>d.copy()\<close> allocates a new dict with the same entries.
\<close>

type_synonym store = "config list"

definition dict_copy :: "store \<Rightarrow> nat \<Rightarrow> nat \<times> store" where
  "dict_copy st a = (length st, st @ [st ! a])"

definition prepare_chart_data_at :: "reducer \<Rightarrow> dataframe \<Rightarrow> nat \<Rightarrow> store
    \<Rightarrow> dataframe option \<times> store \<times> diagnostic list" where
  "prepare_chart_data_at agg df a st =
     (case prepare_chart_data agg df (st ! a) of (result, config', ds) \<Rightarrow> (result, st[a := config'], ds))"

section \<open>The chart specification builder: \<^verbatim>\<open>generate_chart\<close>\<close>

text \<open>
  The keyword arguments handed to the plotting function: a configuration value, or the
  one-element list built for \<open>path\<close>. The plotting library is a parameter \<open>px\<close>:
  \<^verbatim>\<open>getattr(px, name)\<close> finds a function or raises AttributeError, and the function
  draws a figure from the table and the arguments or raises.
\<close>

datatype arg = Arg pyval | Path "pyval list"

type_synonym params = "string \<rightharpoonup> arg"

type_synonym 'fig plotly = "string \<Rightarrow> (dataframe \<Rightarrow> params \<Rightarrow> py_error + 'fig) option"

definition getattr_px :: "'fig plotly \<Rightarrow> pyval \<Rightarrow> py_error + (dataframe \<Rightarrow> params \<Rightarrow> py_error + 'fig)" where
  "getattr_px px name = (case name of
       PNone \<Rightarrow> Inl TypeError
     | PStr n \<Rightarrow> (case px n of None \<Rightarrow> Inl AttributeError | Some f \<Rightarrow> Inr f))"

text \<open>
  The parameters built between \<^verbatim>\<open>params = {'title': ...}\<close> and the call. Where the
  source reads \<^verbatim>\<open>config[k]\<close> right after testing \<^verbatim>\<open>config.get(k)\<close>, or reads
  \<^verbatim>\<open>config['x_field']\<close> a second time, the value already read is used.
\<close>

definition build_params :: "config \<Rightarrow> pyval \<Rightarrow> py_error + params" where
  "build_params config chart_type =
     and_then (cfg_item config ''title'') (\<lambda>title.
     and_then (cfg_item config ''x_field'') (\<lambda>x_field.
       let params = [''title'' \<mapsto> Arg title];
           params =
             (if chart_type \<in> set [PStr ''pie'', PStr ''sunburst'', PStr ''treemap''] then
                let params = params(''values'' \<mapsto> Arg (cfg_get config ''y_field'' (PStr ''count'')));
                    params = params(''names'' \<mapsto> Arg x_field)
                in if chart_type \<in> set [PStr ''sunburst'', PStr ''treemap'']
                   then (params(''path'' \<mapsto> Path [x_field]))(''names'' := None)
                   else params
              else
                let params = params(''x'' \<mapsto> Arg x_field);
                    y_field = cfg_get config ''y_field'' PNone
                in if truthy y_field then params(''y'' \<mapsto> Arg y_field) else params);
           color_field = cfg_get config ''color_field'' PNone;
           params = (if truthy color_field then params(''color'' \<mapsto> Arg color_field) else params);
           orientation = cfg_get config ''orientation'' PNone;
           params = (if truthy orientation then params(''orientation'' \<mapsto> Arg orientation) else params)
       in Inr params))"

definition generate_body :: "'fig plotly \<Rightarrow> dataframe \<Rightarrow> config \<Rightarrow> py_error + 'fig" where
  "generate_body px df config =
     and_then (cfg_item config ''chart_type'') (\<lambda>chart_type.
     and_then (getattr_px px chart_type) (\<lambda>px_func.
     and_then (build_params config chart_type) (\<lambda>params.
       px_func df params)))"

definition no_data_message :: string where
  "no_data_message = ''No data available for this chart configuration.''"

definition plotted :: "py_error + 'fig \<Rightarrow> 'fig option \<times> diagnostic list" where
  "plotted r = (case r of
       Inr fig \<Rightarrow> (Some fig, [])
     | Inl e \<Rightarrow> (None, [StError ''Chart generation error'' e]))"

definition generate_chart :: "'fig plotly \<Rightarrow> dataframe option \<Rightarrow> config
    \<Rightarrow> 'fig option \<times> diagnostic list" where
  "generate_chart px df config =
     (case df of
        None \<Rightarrow> (None, [StWarning no_data_message])
      | Some d \<Rightarrow>
          if length (rows d) = 0 then (None, [StWarning no_data_message])
          else plotted (generate_body px d config))"

section \<open>Rendering one stored chart: the loop body of \<^verbatim>\<open>render_custom_charts\<close>\<close>

text \<open>
  The session holds the list of the stored charts, here the addresses of their dicts;
  the body renders the chart at position \<open>idx\<close> of that list. In the left column the
  aggregation engine is given a copy of the stored configuration, and the chart is
  then generated from the stored configuration itself. In the right column is the
  delete button, whose key is made from the \<open>id\<close> of the configuration; pressing it
  removes the chart at \<open>idx\<close> from the list and reruns the script. The title (for the
  warning) and the \<open>id\<close> (for the key) are read outside any \<^verbatim>\<open>try\<close>, so a configuration
  without them is an error of the whole step. A separator follows every chart but the
  last one, unless the script reruns.
\<close>

definition py_str :: "pyval \<Rightarrow> string" where
  "py_str v = (case v of PNone \<Rightarrow> ''None'' | PStr s \<Rightarrow> s)"

definition list_pop :: "'a list \<Rightarrow> nat \<Rightarrow> 'a list" where
  "list_pop xs i = take i xs @ drop (Suc i) xs"

record 'fig rendered =
  figure :: "'fig option"
  dicts :: store
  shown :: "diagnostic list"
  custom_charts :: "nat list"
  rerun :: bool
  separator :: bool

definition render_custom_chart :: "reducer \<Rightarrow> 'fig plotly \<Rightarrow> dataframe \<Rightarrow> nat list \<Rightarrow> nat
    \<Rightarrow> bool \<Rightarrow> store \<Rightarrow> py_error + 'fig rendered" where
  "render_custom_chart agg px filtered_df charts idx delete_clicked st =
     (let chart_config = charts ! idx
      in case dict_copy st chart_config of (b, st1) \<Rightarrow>
         case prepare_chart_data_at agg filtered_df b st1 of (chart_data, st2, ds) \<Rightarrow>
           and_then
             (if (case chart_data of None \<Rightarrow> False | Some d \<Rightarrow> length (rows d) > 0) then
                (case generate_chart px chart_data (st2 ! chart_config) of
                   (fig, ds') \<Rightarrow> Inr (fig, ds @ ds'))
              else
                and_then (cfg_item (st2 ! chart_config) ''title'') (\<lambda>title.
                  Inr (None, ds @ [StWarning (''No data available for chart: '' @ py_str title)])))
             (\<lambda>(fig, ds2).
                and_then (cfg_item (st2 ! chart_config) ''id'') (\<lambda>chart_id.
                  if delete_clicked then
                    Inr \<lparr>figure = fig, dicts = st2, shown = ds2,
                         custom_charts = list_pop charts idx, rerun = True, separator = False\<rparr>
                  else
                    Inr \<lparr>figure = fig, dicts = st2, shown = ds2,
                         custom_charts = charts, rerun = False,
                         separator = (idx < length charts - 1)\<rparr>)))"

section \<open>The chart registry and the chart builder form\<close>

record descriptor =
  label :: string
  needs_y :: bool
  y_label :: "string option"
  supports_orientation :: bool
  supports_markers :: bool
  supports_size :: bool
  hierarchical :: bool

definition descr :: "string \<Rightarrow> bool \<Rightarrow> descriptor" where
  "descr l ny = \<lparr>label = l, needs_y = ny, y_label = None, supports_orientation = False,
     supports_markers = False, supports_size = False, hierarchical = False\<rparr>"

definition CHART_TYPES :: "(string \<times> descriptor) list" where
  "CHART_TYPES =
    [(''bar'', (descr ''Bar Chart'' True)\<lparr>supports_orientation := True\<rparr>),
     (''line'', (descr ''Line Chart'' True)\<lparr>supports_markers := True\<rparr>),
     (''scatter'', (descr ''Scatter Plot'' True)\<lparr>supports_size := True\<rparr>),
     (''pie'', (descr ''Pie Chart'' True)\<lparr>y_label := Some ''Values''\<rparr>),
     (''histogram'', descr ''Histogram'' False),
     (''box'', descr ''Box Plot'' True),
     (''violin'', descr ''Violin Plot'' True),
     (''area'', descr ''Area Chart'' True),
     (''funnel'', descr ''Funnel Chart'' True),
     (''sunburst'', (descr ''Sunburst Chart'' True)\<lparr>hierarchical := True\<rparr>),
     (''treemap'', (descr ''Treemap'' True)\<lparr>hierarchical := True\<rparr>)]"

definition AGGREGATIONS :: "string list" where
  "AGGREGATIONS = [''count'', ''sum'', ''mean'', ''median'', ''min'', ''max'']"

definition get_numeric_fields :: "dataframe \<Rightarrow> bool \<Rightarrow> string list" where
  "get_numeric_fields df is_enhanced = [''year'', ''month'', ''fatalities_num'']"

definition get_categorical_fields :: "dataframe \<Rightarrow> bool \<Rightarrow> string list" where
  "get_categorical_fields df is_enhanced =
     (let base_categorical = [''type'', ''aircraft_category'', ''operator'', ''location'',
                              ''damage'', ''damage_full'', ''type_code'']
      in if is_enhanced then
           base_categorical @
           filter (\<lambda>f. f \<in> set (columns df) \<and> list_ex (\<lambda>c. c \<noteq> NA) (column df f))
             [''phase'', ''nature'', ''departure_airport'', ''destination_airport'',
              ''category'', ''engine_model'']
         else base_categorical)"

text \<open>
  The form's widgets. A select box or radio gives the option the user picked; the pick is
  its position in the option list. A position beyond the list cannot be picked: the
  model answers None there, which is also what a select box without options gives.
\<close>

definition selectbox :: "string list \<Rightarrow> nat \<Rightarrow> pyval" where
  "selectbox options i = (if i < length options then PStr (options ! i) else PNone)"

record ui =
  chart_title :: string
  chart_type_pick :: nat
  x_pick :: nat
  y_pick :: nat
  aggregation_pick :: nat
  show_advanced :: bool
  color_pick :: nat
  orientation_pick :: nat
  add_clicked :: bool

text \<open>
  \<^verbatim>\<open>render_chart_builder\<close>: the configuration appended to the stored charts when the add
  button is pressed, None when it is not. \<open>now\<close> is the timestamp text of the identifier.
  \<^verbatim>\<open>CHART_TYPES[chart_type]\<close> raises KeyError when nothing is selected.
\<close>

definition render_chart_builder :: "dataframe \<Rightarrow> bool \<Rightarrow> string \<Rightarrow> ui \<Rightarrow> py_error + config option" where
  "render_chart_builder df is_enhanced now u =
     (let chart_type = selectbox (map fst CHART_TYPES) (chart_type_pick u)
      in case (case chart_type of PNone \<Rightarrow> None | PStr t \<Rightarrow> map_of CHART_TYPES t) of
           None \<Rightarrow> Inl KeyError
         | Some chart_config \<Rightarrow>
             let numeric_fields = get_numeric_fields df is_enhanced;
                 categorical_fields = get_categorical_fields df is_enhanced;
                 all_fields = categorical_fields @ numeric_fields;
                 x_field = selectbox all_fields (x_pick u);
                 y_field = (if needs_y chart_config then selectbox numeric_fields (y_pick u) else PNone);
                 aggregation =
                   (if x_field \<in> set (map PStr categorical_fields) \<and> truthy y_field
                    then selectbox AGGREGATIONS (aggregation_pick u)
                    else if chart_type = PStr ''histogram'' then PStr ''none''
                    else PStr ''count'');
                 color_field =
                   (if show_advanced u then
                      let c = selectbox (''None'' # categorical_fields) (color_pick u)
                      in if c = PStr ''None'' then PNone else c
                    else PNone);
                 orientation =
                   (if show_advanced u \<and> supports_orientation chart_config then
                      (if selectbox [''Horizontal'', ''Vertical''] (orientation_pick u) = PStr ''Horizontal''
                       then PStr ''h'' else PStr ''v'')
                    else PNone)
             in if add_clicked u then
                  Inr (Some [''id'' \<mapsto> PStr (''chart_'' @ now),
                             ''title'' \<mapsto> PStr (chart_title u),
                             ''chart_type'' \<mapsto> chart_type,
                             ''x_field'' \<mapsto> x_field,
                             ''y_field'' \<mapsto> y_field,
                             ''aggregation'' \<mapsto> aggregation,
                             ''color_field'' \<mapsto> color_field,
                             ''orientation'' \<mapsto> orientation])
                else Inr None)"

section \<open>Record ingestion: the derived columns of \<^verbatim>\<open>load_data\<close>\<close>

text \<open>
  \<^verbatim>\<open>pd.to_numeric(..., errors='coerce')\<close> leaves numbers and missing values alone and
  parses strings; a string it cannot parse becomes a missing value. The parser is the
  library's and is a parameter: \<open>parse s\<close> is the number read from \<open>s\<close>, or None.
  \<^verbatim>\<open>fillna(v)\<close> replaces missing values by \<open>v\<close>.
\<close>

definition to_numeric_coerce :: "(string \<Rightarrow> rat option) \<Rightarrow> cell \<Rightarrow> cell" where
  "to_numeric_coerce parse c = (case c of
       NA \<Rightarrow> NA
     | Num q \<Rightarrow> Num q
     | Str s \<Rightarrow> (case parse s of None \<Rightarrow> NA | Some q \<Rightarrow> Num q))"

definition fillna :: "cell \<Rightarrow> cell \<Rightarrow> cell" where
  "fillna v c = (if c = NA then v else c)"

definition fatalities_num :: "(string \<Rightarrow> rat option) \<Rightarrow> cell \<Rightarrow> cell" where
  "fatalities_num parse c = fillna (Num 0) (to_numeric_coerce parse c)"

definition damage_map :: "(string \<times> string) list" where
  "damage_map =
    [(''w/o'', ''Written off''),
     (''sub'', ''Substantial''),
     (''min'', ''Minor''),
     (''non'', ''None''),
     ([], ''Unknown'')]"

text \<open>\<^verbatim>\<open>Series.map(dict)\<close>: a value that is not a key of the dict becomes missing.\<close>

definition series_map :: "(string \<times> string) list \<Rightarrow> cell \<Rightarrow> cell" where
  "series_map m c = (case c of
       Str s \<Rightarrow> (case map_of m s of None \<Rightarrow> NA | Some l \<Rightarrow> Str l)
     | _ \<Rightarrow> NA)"

definition damage_full :: "cell \<Rightarrow> cell" where
  "damage_full c = fillna (Str ''Unknown'') (series_map damage_map c)"

text \<open>\<^verbatim>\<open>df[name] = ...\<close> computed row by row; \<^verbatim>\<open>df[src]\<close> raises KeyError without the column.\<close>

definition assign :: "dataframe \<Rightarrow> string \<Rightarrow> (row \<Rightarrow> cell) \<Rightarrow> dataframe" where
  "assign df name f =
     \<lparr>columns = (if name \<in> set (columns df) then columns df else columns df @ [name]),
      rows = map (\<lambda>r. filter (\<lambda>kv. fst kv \<noteq> name) r @ [(name, f r)]) (rows df)\<rparr>"

definition derive_column :: "dataframe \<Rightarrow> string \<Rightarrow> string \<Rightarrow> (cell \<Rightarrow> cell) \<Rightarrow> py_error + dataframe" where
  "derive_column df name src f =
     (if src \<in> set (columns df) then Inr (assign df name (\<lambda>r. f (cell_at r src)))
      else Inl KeyError)"

section \<open>Library instances used in the examples\<close>

text \<open>
  The reductions of pandas on a numeric column, whose cells are numbers or missing
  values: missing values are skipped; the sum of no value is 0, every other statistic of
  no value is missing. A numeric column holds no string; the model answers TypeError
  there.
\<close>

fun numbers :: "cell list \<Rightarrow> py_error + rat list" where
  "numbers [] = Inr []"
| "numbers (NA # cs) = numbers cs"
| "numbers (Num q # cs) = and_then (numbers cs) (\<lambda>qs. Inr (q # qs))"
| "numbers (Str s # cs) = Inl TypeError"

definition median_sorted :: "rat list \<Rightarrow> rat" where
  "median_sorted qs =
     (let n = length qs
      in if odd n then qs ! (n div 2) else (qs ! (n div 2 - 1) + qs ! (n div 2)) / 2)"

definition numeric_agg :: reducer where
  "numeric_agg a cs =
     and_then (numbers cs) (\<lambda>qs.
       if a = ''sum'' then Inr (Num (sum_list qs))
       else if a \<notin> set [''mean'', ''median'', ''min'', ''max''] then Inl AttributeError
       else if qs = [] then Inr NA
       else if a = ''mean'' then Inr (Num (sum_list qs / of_nat (length qs)))
       else if a = ''median'' then Inr (Num (median_sorted (sort qs)))
       else if a = ''min'' then Inr (Num (fold min (tl qs) (hd qs)))
       else Inr (Num (fold max (tl qs) (hd qs))))"

text \<open>A parser of unsigned decimal numerals, for the strings of the examples.\<close>

definition digit_of :: "char \<Rightarrow> nat option" where
  "digit_of c = (let n = of_char c :: nat in if 48 \<le> n \<and> n \<le> 57 then Some (n - 48) else None)"

fun digits_value :: "nat \<Rightarrow> string \<Rightarrow> nat option" where
  "digits_value acc [] = Some acc"
| "digits_value acc (c # cs) =
     (case digit_of c of None \<Rightarrow> None | Some d \<Rightarrow> digits_value (10 * acc + d) cs)"

definition parse_unsigned :: "string \<Rightarrow> rat option" where
  "parse_unsigned s = (if s = [] then None else map_option of_nat (digits_value 0 s))"

text \<open>
  A plotting library that knows the functions of the registry, accepts every call and
  answers with the call it received.
\<close>

definition px_record :: "(string \<times> dataframe \<times> params) plotly" where
  "px_record name =
     (if name \<in> set (map fst CHART_TYPES) then Some (\<lambda>df ps. Inr (name, df, ps)) else None)"

section \<open>Measures and example data\<close>

text \<open>The sum of a column, over the cells that are numbers.\<close>

definition number_of :: "cell \<Rightarrow> rat" where
  "number_of c = (case c of Num q \<Rightarrow> q | _ \<Rightarrow> 0)"

definition column_sum :: "dataframe \<Rightarrow> string \<Rightarrow> rat" where
  "column_sum df c = sum_list (map number_of (column df c))"

definition missing_count :: "dataframe \<Rightarrow> string \<Rightarrow> nat" where
  "missing_count df c = length (filter (\<lambda>v. v = NA) (column df c))"

text \<open>The table of the specification's examples 1 and 2, as the CSV holds it.\<close>

definition example_table :: dataframe where
  "example_table =
     \<lparr>columns = [''aircraft_category'', ''fatalities''],
      rows = [[(''aircraft_category'', Str ''ATR 72-600''), (''fatalities'', Str ''0'')],
              [(''aircraft_category'', Str ''ATR 72-600''), (''fatalities'', Str ''5'')],
              [(''aircraft_category'', Str ''Dash 8-400''), (''fatalities'', Str [])]]\<rparr>"

definition example_sum_config :: config where
  "example_sum_config =
     [''chart_type'' \<mapsto> PStr ''bar'', ''title'' \<mapsto> PStr ''Fatalities'',
      ''x_field'' \<mapsto> PStr ''aircraft_category'', ''y_field'' \<mapsto> PStr ''fatalities_num'',
      ''aggregation'' \<mapsto> PStr ''sum'']"

text \<open>Two accidents, one of them with no operator recorded.\<close>

definition operator_table :: dataframe where
  "operator_table =
     \<lparr>columns = [''operator'', ''fatalities_num''],
      rows = [[(''operator'', Str ''Air Nostrum''), (''fatalities_num'', Num 0)],
              [(''operator'', NA), (''fatalities_num'', Num 3)]]\<rparr>"

definition operator_count_config :: config where
  "operator_count_config =
     [''chart_type'' \<mapsto> PStr ''bar'', ''title'' \<mapsto> PStr ''Accidents'',
      ''x_field'' \<mapsto> PStr ''operator'', ''aggregation'' \<mapsto> PStr ''count'']"

text \<open>Two accidents with every field recorded.\<close>

definition fleet_table :: dataframe where
  "fleet_table =
     \<lparr>columns = [''operator'', ''fatalities_num''],
      rows = [[(''operator'', Str ''Air Nostrum''), (''fatalities_num'', Num 2)],
              [(''operator'', Str ''Binter Canarias''), (''fatalities_num'', Num 3)]]\<rparr>"

text \<open>The configuration of the specification's example 4.\<close>

definition sunburst_none_config :: config where
  "sunburst_none_config =
     [''chart_type'' \<mapsto> PStr ''sunburst'', ''title'' \<mapsto> PStr ''Operators'',
      ''x_field'' \<mapsto> PStr ''operator'', ''y_field'' \<mapsto> PStr ''fatalities_num'',
      ''aggregation'' \<mapsto> PStr ''none'']"

text \<open>A bar chart configuration that has no \<open>y_field\<close> entry.\<close>

definition bar_no_y_config :: config where
  "bar_no_y_config =
     [''chart_type'' \<mapsto> PStr ''bar'', ''title'' \<mapsto> PStr ''Operators'',
      ''x_field'' \<mapsto> PStr ''operator'', ''aggregation'' \<mapsto> PStr ''count'']"

text \<open>A configuration as the chart builder stores it: accidents counted by operator.\<close>

definition stored_count_config :: config where
  "stored_count_config =
     [''id'' \<mapsto> PStr ''chart_20240101_120000_000000'',
      ''title'' \<mapsto> PStr ''Accidents by operator'',
      ''chart_type'' \<mapsto> PStr ''bar'',
      ''x_field'' \<mapsto> PStr ''operator'',
      ''y_field'' \<mapsto> PStr ''fatalities_num'',
      ''aggregation'' \<mapsto> PStr ''count'',
      ''color_field'' \<mapsto> PNone,
      ''orientation'' \<mapsto> PNone]"

text \<open>The sum of the \<open>count\<close> column of a result, when there is a result.\<close>

definition count_total :: "dataframe option \<Rightarrow> rat option" where
  "count_total r = (case r of None \<Rightarrow> None | Some out \<Rightarrow> Some (column_sum out ''count''))"

text \<open>The table of the examples with the derived column, and the grouped sums of example 2.\<close>

definition example_loaded :: dataframe where
  "example_loaded =
     \<lparr>columns = [''aircraft_category'', ''fatalities'', ''fatalities_num''],
      rows = [[(''aircraft_category'', Str ''ATR 72-600''), (''fatalities'', Str ''0''),
               (''fatalities_num'', Num 0)],
              [(''aircraft_category'', Str ''ATR 72-600''), (''fatalities'', Str ''5''),
               (''fatalities_num'', Num 5)],
              [(''aircraft_category'', Str ''Dash 8-400''), (''fatalities'', Str []),
               (''fatalities_num'', Num 0)]]\<rparr>"

definition example_sums :: dataframe where
  "example_sums =
     \<lparr>columns = [''aircraft_category'', ''fatalities_num''],
      rows = [[(''aircraft_category'', Str ''ATR 72-600''), (''fatalities_num'', Num 5)],
              [(''aircraft_category'', Str ''Dash 8-400''), (''fatalities_num'', Num 0)]]\<rparr>"

text \<open>A filled-in chart builder form: a bar chart of fatalities by operator, added.\<close>

definition example_form :: ui where
  "example_form =
     \<lparr>chart_title = ''My Custom Chart'', chart_type_pick = 0, x_pick = 2, y_pick = 2,
      aggregation_pick = 1, show_advanced = False, color_pick = 0, orientation_pick = 0,
      add_clicked = True\<rparr>"

section \<open>Auxiliary facts\<close>

lemma and_then_Inr [simp]: "and_then (Inr x) f = f x"
  by (simp add: and_then_def)

lemma and_then_Inl [simp]: "and_then (Inl e) f = Inl e"
  by (simp add: and_then_def)

lemma cfg_item_Some [simp]: "c k = Some v \<Longrightarrow> cfg_item c k = Inr v"
  by (simp add: cfg_item_def)

lemma cfg_item_None [simp]: "c k = None \<Longrightarrow> cfg_item c k = Inl KeyError"
  by (simp add: cfg_item_def)

lemma cfg_get_Some [simp]: "c k = Some v \<Longrightarrow> cfg_get c k d = v"
  by (simp add: cfg_get_def)

lemma cfg_get_None [simp]: "c k = None \<Longrightarrow> cfg_get c k d = d"
  by (simp add: cfg_get_def)

lemma length_filter_count_list: "length (filter (\<lambda>r. f r = k) rs) = count_list (map f rs) k"
  by (induction rs) auto

lemma count_list_filter_keep: "P k \<Longrightarrow> count_list (filter P xs) k = count_list xs k"
  by (induction xs) auto

lemma distinct_group_keys: "distinct (group_keys df x)"
  by (simp add: group_keys_def)

lemma set_group_keys: "set (group_keys df x) = set (column df x) - {NA}"
  by (auto simp add: group_keys_def)

text \<open>The sizes of the groups add up to the number of rows that have a key.\<close>

lemma sum_group_sizes:
  "(\<Sum>k\<leftarrow>group_keys df x. length (group_rows df x k)) =
     length (filter (\<lambda>r. cell_at r x \<noteq> NA) (rows df))"
proof -
  let ?present = "filter (\<lambda>c. c \<noteq> NA) (column df x)"
  have "(\<Sum>k\<leftarrow>group_keys df x. length (group_rows df x k)) =
        (\<Sum>k\<in>set (group_keys df x). length (group_rows df x k))"
    by (rule sum_list_distinct_conv_sum_set) (rule distinct_group_keys)
  also have "\<dots> = (\<Sum>k\<in>set ?present. count_list ?present k)"
    by (rule sum.cong)
       (auto simp: set_group_keys group_rows_def column_def length_filter_count_list
          count_list_filter_keep)
  also have "\<dots> = length ?present"
    by (rule sum_count_set) auto
  also have "\<dots> = length (filter (\<lambda>r. cell_at r x \<noteq> NA) (rows df))"
    by (simp add: column_def filter_map comp_def)
  finally show ?thesis .
qed


lemma prepare_body_raw:
  assumes "config ''x_field'' = Some x" and "config ''chart_type'' = Some (PStr t)"
    and "t = ''scatter'' \<or> t = ''histogram''"
  shows "prepare_body agg df config = Inr (df, config)"
  using assms by (auto simp add: prepare_body_def Let_def)

text \<open>The \<open>count\<close> branch.\<close>

lemma prepare_body_count:
  assumes "config ''x_field'' = Some x"
    and "cfg_get config ''aggregation'' (PStr ''count'') = PStr ''count''"
    and "config ''chart_type'' = Some ct"
    and "ct \<noteq> PStr ''scatter''" and "ct \<noteq> PStr ''histogram''"
  shows "prepare_body agg df config =
           and_then (groupby_size df x) (\<lambda>result. Inr (result, config(''y_field'' \<mapsto> PStr ''count'')))"
  using assms by (simp add: prepare_body_def Let_def)

lemma groupby_size_column:
  assumes "x \<in> set (columns df)" and "x \<noteq> ''count''"
  shows "groupby_size df (PStr x) =
           Inr \<lparr>columns = [x, ''count''],
                rows = map (\<lambda>k. [(x, k), (''count'', Num (of_nat (length (group_rows df x k))))])
                         (group_keys df x)\<rparr>"
  using assms by (simp add: groupby_size_def groupby_def)

text \<open>
  Whatever branch is taken, the configuration comes back unchanged or with \<open>y_field\<close> set
  to \<open>'count'\<close>, and the latter only from the \<open>count\<close> branch.
\<close>

lemma prepare_body_config:
  assumes "prepare_body agg df config = Inr (r, config')"
  shows "config' = config \<or>
         (config' = config(''y_field'' \<mapsto> PStr ''count'')
          \<and> cfg_get config ''aggregation'' (PStr ''count'') = PStr ''count''
          \<and> (\<exists>x ct. config ''x_field'' = Some x \<and> config ''chart_type'' = Some ct
                \<and> ct \<noteq> PStr ''scatter'' \<and> ct \<noteq> PStr ''histogram''
                \<and> groupby_size df x = Inr r))"
  using assms unfolding prepare_body_def cfg_item_def Let_def
  apply (cases "config ''x_field''"; simp)
  apply (cases "cfg_get config ''aggregation'' (PStr ''count'') = PStr ''none''"; simp)
  apply (cases "config ''chart_type''"; simp)
  apply (auto split: if_splits sum.splits pyval.splits simp: and_then_def)
  done

lemma prepare_body_rerun:
  assumes "prepare_body agg df config = Inr (r, config')"
  shows "prepare_body agg df config' = Inr (r, config')"
proof -
  from prepare_body_config [OF assms] show ?thesis
  proof
    assume "config' = config"
    with assms show ?thesis by simp
  next
    assume h: "config' = config(''y_field'' \<mapsto> PStr ''count'')
          \<and> cfg_get config ''aggregation'' (PStr ''count'') = PStr ''count''
          \<and> (\<exists>x ct. config ''x_field'' = Some x \<and> config ''chart_type'' = Some ct
                \<and> ct \<noteq> PStr ''scatter'' \<and> ct \<noteq> PStr ''histogram''
                \<and> groupby_size df x = Inr r)"
    then obtain x ct where x: "config ''x_field'' = Some x" and ct: "config ''chart_type'' = Some ct"
      and raw: "ct \<noteq> PStr ''scatter''" "ct \<noteq> PStr ''histogram''"
      and size: "groupby_size df x = Inr r" by blast
    from h have c': "config' = config(''y_field'' \<mapsto> PStr ''count'')"
      and a: "cfg_get config ''aggregation'' (PStr ''count'') = PStr ''count''" by simp_all
    have "prepare_body agg df config' =
            and_then (groupby_size df x) (\<lambda>result. Inr (result, config'(''y_field'' \<mapsto> PStr ''count'')))"
      by (rule prepare_body_count [where ct = ct])
         (use x ct raw a in \<open>simp_all add: c' cfg_get_def\<close>)
    then show ?thesis by (simp add: size c')
  qed
qed

section \<open>The claims\<close>

text \<open>
  C10. For a configuration whose chart type is scatter or histogram (and that has an
  \<open>x_field\<close> entry, which the function reads first), \<open>prepare_chart_data\<close> returns the
  input table unchanged, whatever the aggregation entry holds or whether there is one:
  no grouping, no reduction, no diagnostic, and the configuration is left as it was.
\<close>

theorem raw_chart_types_pass_through:
  assumes "config ''x_field'' = Some x"
    and "config ''chart_type'' = Some (PStr t)"
    and "t = ''scatter'' \<or> t = ''histogram''"
  shows "prepare_chart_data agg df config = (Some df, config, [])"
  using prepare_body_raw [OF assms] by (simp add: prepare_chart_data_def)

theorem raw_chart_types_pass_through_witness:
  "prepare_chart_data numeric_agg operator_table
     [''chart_type'' \<mapsto> PStr ''scatter'', ''x_field'' \<mapsto> PStr ''operator'',
      ''y_field'' \<mapsto> PStr ''fatalities_num'', ''aggregation'' \<mapsto> PStr ''sum'']
   = (Some operator_table,
      [''chart_type'' \<mapsto> PStr ''scatter'', ''x_field'' \<mapsto> PStr ''operator'',
       ''y_field'' \<mapsto> PStr ''fatalities_num'', ''aggregation'' \<mapsto> PStr ''sum''], [])"
  by (rule raw_chart_types_pass_through [where x = "PStr ''operator''" and t = "''scatter''"]) simp_all

text \<open>
  C7. The aggregation engine is deterministic and keeps no state of its own: its result
  is a function of the table and the configuration, and the one thing it changes, the
  configuration it was given, does not change what it computes. Run again on the same
  table and on the configuration as the first run left it, it returns the same table,
  the same diagnostics and the same configuration.
\<close>

theorem prepare_chart_data_rerun:
  "prepare_chart_data agg df (fst (snd (prepare_chart_data agg df config)))
     = prepare_chart_data agg df config"
proof (cases "prepare_body agg df config")
  case (Inl e)
  then show ?thesis by (simp add: prepare_chart_data_def)
next
  case (Inr p)
  obtain r config' where p: "p = (r, config')" by (cases p)
  from Inr p have first: "prepare_body agg df config = Inr (r, config')" by simp
  from prepare_body_rerun [OF first] first show ?thesis
    by (simp add: prepare_chart_data_def)
qed

text \<open>
  C4. When the table handed to \<open>generate_chart\<close> is missing (None) or has no rows, no
  figure is produced, whatever the configuration and the plotting library, and the one
  diagnostic shown is the warning "No data available for this chart configuration."
  (the message ends with a full stop).
\<close>

theorem empty_table_no_chart:
  assumes "df = None \<or> map_option rows df = Some []"
  shows "generate_chart px df config =
           (None, [StWarning ''No data available for this chart configuration.''])"
  using assms by (cases df) (auto simp add: generate_chart_def no_data_message_def)

theorem empty_table_no_chart_witness:
  "map_option rows (Some \<lparr>columns = [''operator''], rows = []\<rparr>) = Some []
   \<and> generate_chart px_record (Some \<lparr>columns = [''operator''], rows = []\<rparr>) bar_no_y_config =
       (None, [StWarning ''No data available for this chart configuration.''])"
  using empty_table_no_chart [of "Some \<lparr>columns = [''operator''], rows = []\<rparr>" px_record bar_no_y_config]
  by simp

text \<open>
  C8. The label \<open>damage_full\<close> of a damage code is read from the fixed table
  w/o - Written off, sub - Substantial, min - Minor, non - None, empty - Unknown; a code
  that is not in the table, and a missing or numeric cell, gives Unknown. So the label
  is always one of the five.
\<close>

theorem damage_full_labels:
  "damage_full (Str ''w/o'') = Str ''Written off''
   \<and> damage_full (Str ''sub'') = Str ''Substantial''
   \<and> damage_full (Str ''min'') = Str ''Minor''
   \<and> damage_full (Str ''non'') = Str ''None''
   \<and> damage_full (Str []) = Str ''Unknown''
   \<and> damage_full (Str code) =
       Str (case map_of damage_map code of None \<Rightarrow> ''Unknown'' | Some l \<Rightarrow> l)
   \<and> damage_full c \<in> set (map Str [''Written off'', ''Substantial'', ''Minor'', ''None'', ''Unknown''])"
proof -
  have code: "damage_full (Str s) =
      Str (case map_of damage_map s of None \<Rightarrow> ''Unknown'' | Some l \<Rightarrow> l)" for s
    by (simp add: damage_full_def series_map_def fillna_def split: option.splits)
  have range: "damage_full c \<in> set (map Str [''Written off'', ''Substantial'', ''Minor'', ''None'', ''Unknown''])"
    by (cases c) (auto simp add: damage_full_def series_map_def fillna_def damage_map_def)
  show ?thesis
    using range by (simp add: code) (simp add: damage_map_def)
qed

text \<open>
  C5. For a table with at least one row and a configuration that has a title and an
  \<open>x_field\<close>, \<open>generate_chart\<close> calls the plotting function of the chart type with these
  arguments. Pie: \<open>names\<close> is the \<open>x_field\<close> and \<open>values\<close> is the \<open>y_field\<close> entry, or
  \<open>'count'\<close> when the configuration has no \<open>y_field\<close> entry; there is no \<open>path\<close>, \<open>x\<close> or
  \<open>y\<close>. Sunburst and treemap: \<open>path\<close> is the one-element list of the \<open>x_field\<close>, \<open>values\<close>
  is as for pie, and there is no \<open>names\<close>, \<open>x\<close> or \<open>y\<close>. The figure is what the plotting
  function returns for them.
\<close>

theorem label_value_chart_params:
  assumes "rows d \<noteq> []"
    and "config ''chart_type'' = Some (PStr t)"
    and "config ''title'' = Some title"
    and "config ''x_field'' = Some x"
    and "px t = Some f"
  shows "\<exists>ps. build_params config (PStr t) = Inr ps
           \<and> generate_chart px (Some d) config = plotted (f d ps)
           \<and> (t = ''pie'' \<longrightarrow>
                ps ''names'' = Some (Arg x)
                \<and> ps ''values'' = Some (Arg (case config ''y_field'' of None \<Rightarrow> PStr ''count'' | Some y \<Rightarrow> y))
                \<and> ps ''path'' = None \<and> ps ''x'' = None \<and> ps ''y'' = None)
           \<and> (t = ''sunburst'' \<or> t = ''treemap'' \<longrightarrow>
                ps ''path'' = Some (Path [x])
                \<and> ps ''values'' = Some (Arg (case config ''y_field'' of None \<Rightarrow> PStr ''count'' | Some y \<Rightarrow> y))
                \<and> ps ''names'' = None \<and> ps ''x'' = None \<and> ps ''y'' = None)"
proof -
  obtain ps where ps: "build_params config (PStr t) = Inr ps"
    using assms(3,4) by (simp add: build_params_def Let_def)
  have call: "generate_chart px (Some d) config = plotted (f d ps)"
    using assms(1,2,5) ps by (simp add: generate_chart_def generate_body_def getattr_px_def)
  have pie: "ps ''names'' = Some (Arg x)
       \<and> ps ''values'' = Some (Arg (case config ''y_field'' of None \<Rightarrow> PStr ''count'' | Some y \<Rightarrow> y))
       \<and> ps ''path'' = None \<and> ps ''x'' = None \<and> ps ''y'' = None" if "t = ''pie''"
    using ps assms(3,4) that
    by (auto simp add: build_params_def Let_def cfg_get_def split: option.splits)
  have hier: "ps ''path'' = Some (Path [x])
       \<and> ps ''values'' = Some (Arg (case config ''y_field'' of None \<Rightarrow> PStr ''count'' | Some y \<Rightarrow> y))
       \<and> ps ''names'' = None \<and> ps ''x'' = None \<and> ps ''y'' = None" if "t = ''sunburst'' \<or> t = ''treemap''"
    using ps assms(3,4) that
    by (auto simp add: build_params_def Let_def cfg_get_def split: option.splits)
  from ps call pie hier show ?thesis by blast
qed

theorem label_value_chart_params_witness:
  "rows fleet_table \<noteq> []
   \<and> sunburst_none_config ''chart_type'' = Some (PStr ''sunburst'')
   \<and> px_record ''sunburst'' = Some (\<lambda>df ps. Inr (''sunburst'', df, ps))
   \<and> (\<exists>ps. generate_chart px_record (Some fleet_table) sunburst_none_config =
             (Some (''sunburst'', fleet_table, ps), [])
           \<and> ps ''path'' = Some (Path [PStr ''operator''])
           \<and> ps ''values'' = Some (Arg (PStr ''fatalities_num''))
           \<and> ps ''names'' = None)"
proof -
  have r: "rows fleet_table \<noteq> []" by (simp add: fleet_table_def)
  have t: "sunburst_none_config ''chart_type'' = Some (PStr ''sunburst'')"
    by (simp add: sunburst_none_config_def)
  have ti: "sunburst_none_config ''title'' = Some (PStr ''Operators'')"
    by (simp add: sunburst_none_config_def)
  have x: "sunburst_none_config ''x_field'' = Some (PStr ''operator'')"
    by (simp add: sunburst_none_config_def)
  have y: "sunburst_none_config ''y_field'' = Some (PStr ''fatalities_num'')"
    by (simp add: sunburst_none_config_def)
  have f: "px_record ''sunburst'' = Some (\<lambda>df ps. Inr (''sunburst'', df, ps))"
    by (simp add: px_record_def CHART_TYPES_def)
  from label_value_chart_params
         [where px = px_record and t = "''sunburst''" and config = sunburst_none_config, OF r t ti x f]
       r t f y show ?thesis
    by (auto simp add: plotted_def)
qed

text \<open>What the \<open>count\<close> branch returns for a grouping column of the table.\<close>

lemma prepare_chart_data_count:
  assumes "config ''x_field'' = Some (PStr x)"
    and "x \<in> set (columns df)" and "x \<noteq> ''count''"
    and "cfg_get config ''aggregation'' (PStr ''count'') = PStr ''count''"
    and "config ''chart_type'' = Some ct"
    and "ct \<noteq> PStr ''scatter''" and "ct \<noteq> PStr ''histogram''"
  shows "prepare_chart_data agg df config =
           (Some \<lparr>columns = [x, ''count''],
                  rows = map (\<lambda>k. [(x, k), (''count'', Num (of_nat (length (group_rows df x k))))])
                           (group_keys df x)\<rparr>,
            config(''y_field'' \<mapsto> PStr ''count''), [])"
  using prepare_body_count [OF assms(1,4,5,6,7), of agg df] groupby_size_column [OF assms(2,3)]
  by (simp add: prepare_chart_data_def)

lemma column_sum_counts:
  assumes "x \<noteq> ''count''"
  shows "column_sum \<lparr>columns = cs,
                     rows = map (\<lambda>k. [(x, k), (''count'', Num (of_nat (n k)))]) ks\<rparr> ''count''
         = of_nat (\<Sum>k\<leftarrow>ks. n k)"
  using assms by (induction ks) (simp_all add: column_sum_def column_def cell_at_def number_of_def)

lemma column_keys:
  "column \<lparr>columns = cs, rows = map (\<lambda>k. [(x, k), (''count'', v k)]) ks\<rparr> x = ks"
  by (induction ks) (simp_all add: column_def cell_at_def)

text \<open>
  C9. With aggregation \<open>count\<close> (given, or taken by default) and a chart type other than
  scatter and histogram, \<open>prepare_chart_data\<close> stores \<open>'count'\<close> under \<open>y_field\<close> in the
  configuration it is given: called on the stored dict itself (address \<open>a\<close>), it changes
  that dict. The loop body of \<open>render_custom_charts\<close> hands it a copy: for a stored
  configuration that has a title and an \<open>id\<close>, the step succeeds, and after it the dicts
  are the old ones, the stored configuration untouched, followed by the changed copy,
  whether or not the delete button was pressed.
\<close>

theorem count_stores_y_field:
  assumes "idx < length cs" and "cs ! idx = a"
    and "a < length st" and "st ! a = config"
    and "config ''x_field'' = Some (PStr x)"
    and "x \<in> set (columns df)" and "x \<noteq> ''count''"
    and "cfg_get config ''aggregation'' (PStr ''count'') = PStr ''count''"
    and "config ''chart_type'' = Some ct"
    and "ct \<noteq> PStr ''scatter''" and "ct \<noteq> PStr ''histogram''"
    and "config ''title'' = Some title"
    and "config ''id'' = Some chart_id"
  shows "fst (snd (prepare_chart_data agg df config)) = config(''y_field'' \<mapsto> PStr ''count'')
       \<and> fst (snd (prepare_chart_data_at agg df a st)) = st[a := config(''y_field'' \<mapsto> PStr ''count'')]
       \<and> (\<exists>r. render_custom_chart agg px df cs idx delete_clicked st = Inr r
              \<and> dicts r = st @ [config(''y_field'' \<mapsto> PStr ''count'')]
              \<and> dicts r ! a = config)"
proof -
  let ?config' = "config(''y_field'' \<mapsto> PStr ''count'')"
  let ?out = "\<lparr>columns = [x, ''count''],
                rows = map (\<lambda>k. [(x, k), (''count'', Num (of_nat (length (group_rows df x k))))])
                         (group_keys df x)\<rparr>"
  have run: "prepare_chart_data agg df config = (Some ?out, ?config', [])"
    by (rule prepare_chart_data_count [OF assms(5-11)])
  have direct: "fst (snd (prepare_chart_data_at agg df a st)) = st[a := ?config']"
    using run assms(4) by (simp add: prepare_chart_data_at_def)
  have copy: "prepare_chart_data_at agg df (length st) (st @ [st ! a]) =
                (Some ?out, st @ [?config'], [])"
    using run assms(4) by (simp add: prepare_chart_data_at_def)
  have kept: "(st @ [?config']) ! a = config"
    using assms(3,4) by (simp add: nth_append)
  have "\<exists>r. render_custom_chart agg px df cs idx delete_clicked st = Inr r
              \<and> dicts r = st @ [?config']"
  proof (cases "rows ?out = []")
    case True
    then show ?thesis
      using copy kept assms(2,12,13)
      by (simp add: render_custom_chart_def dict_copy_def Let_def)
  next
    case False
    obtain fig ds where "generate_chart px (Some ?out) config = (fig, ds)"
      by (cases "generate_chart px (Some ?out) config")
    then show ?thesis
      using copy kept False assms(2,13)
      by (simp add: render_custom_chart_def dict_copy_def Let_def)
  qed
  with run direct kept show ?thesis by auto
qed

theorem count_stores_y_field_witness:
  "(0::nat) < length [0::nat] \<and> (0::nat) < length [stored_count_config]
   \<and> stored_count_config ''id'' = Some (PStr ''chart_20240101_120000_000000'')
   \<and> stored_count_config ''y_field'' = Some (PStr ''fatalities_num'')
   \<and> fst (snd (prepare_chart_data numeric_agg operator_table stored_count_config)) ''y_field''
       = Some (PStr ''count'')
   \<and> fst (snd (prepare_chart_data_at numeric_agg operator_table 0 [stored_count_config]))
       = [stored_count_config(''y_field'' \<mapsto> PStr ''count'')]
   \<and> (\<exists>r. render_custom_chart numeric_agg px_record operator_table [0] 0 False [stored_count_config]
              = Inr r
         \<and> dicts r = [stored_count_config, stored_count_config(''y_field'' \<mapsto> PStr ''count'')])"
proof -
  have x: "stored_count_config ''x_field'' = Some (PStr ''operator'')"
    and a: "cfg_get stored_count_config ''aggregation'' (PStr ''count'') = PStr ''count''"
    and ct: "stored_count_config ''chart_type'' = Some (PStr ''bar'')"
    and ti: "stored_count_config ''title'' = Some (PStr ''Accidents by operator'')"
    and i: "stored_count_config ''id'' = Some (PStr ''chart_20240101_120000_000000'')"
    and y: "stored_count_config ''y_field'' = Some (PStr ''fatalities_num'')"
    by (simp_all add: stored_count_config_def cfg_get_def)
  have col: "''operator'' \<in> set (columns operator_table)"
    by (simp add: operator_table_def)
  from count_stores_y_field [where idx = 0 and cs = "[0]" and a = 0 and st = "[stored_count_config]"
         and agg = numeric_agg and px = px_record and delete_clicked = False,
         OF _ _ _ _ x col _ a ct _ _ ti i] i y
  show ?thesis by auto
qed

text \<open>
  C1, as the code has it. For a configuration whose \<open>x_field\<close> is a column of the table
  other than \<open>count\<close>, with aggregation \<open>count\<close> and a chart type other than scatter and
  histogram, \<open>prepare_chart_data\<close> returns a table with the columns \<open>x_field\<close> and \<open>count\<close>
  and one row per group: the groups are the distinct values of the column that are not
  missing, each with its number of rows. The \<open>count\<close> column adds up to the number of
  rows whose \<open>x_field\<close> value is not missing: rows with a missing key are in no group.
  It adds up to the number of rows of the table when no \<open>x_field\<close> value is missing.
\<close>

theorem count_aggregation_total:
  assumes "config ''x_field'' = Some (PStr x)"
    and "x \<in> set (columns df)" and "x \<noteq> ''count''"
    and "cfg_get config ''aggregation'' (PStr ''count'') = PStr ''count''"
    and "config ''chart_type'' = Some ct"
    and "ct \<noteq> PStr ''scatter''" and "ct \<noteq> PStr ''histogram''"
  shows "\<exists>out. fst (prepare_chart_data agg df config) = Some out
           \<and> columns out = [x, ''count'']
           \<and> distinct (column out x)
           \<and> set (column out x) = set (column df x) - {NA}
           \<and> rows out = map (\<lambda>k. [(x, k), (''count'', Num (of_nat (length (group_rows df x k))))])
                           (column out x)
           \<and> column_sum out ''count'' = of_nat (length (rows df) - missing_count df x)
           \<and> (missing_count df x = 0 \<longrightarrow> column_sum out ''count'' = of_nat (length (rows df)))"
proof -
  let ?out = "\<lparr>columns = [x, ''count''],
                rows = map (\<lambda>k. [(x, k), (''count'', Num (of_nat (length (group_rows df x k))))])
                         (group_keys df x)\<rparr>"
  have run: "fst (prepare_chart_data agg df config) = Some ?out"
    using prepare_chart_data_count [OF assms, of agg] by simp
  have keys: "column ?out x = group_keys df x"
    by (rule column_keys)
  have present: "length (filter (\<lambda>r. cell_at r x \<noteq> NA) (rows df)) = length (rows df) - missing_count df x"
  proof -
    have "length (rows df) = length (filter (\<lambda>r. cell_at r x = NA) (rows df))
                             + length (filter (\<lambda>r. \<not> cell_at r x = NA) (rows df))"
      by (rule sum_length_filter_compl [symmetric])
    moreover have "missing_count df x = length (filter (\<lambda>r. cell_at r x = NA) (rows df))"
      by (simp add: missing_count_def column_def filter_map comp_def)
    ultimately show ?thesis by simp
  qed
  have total: "column_sum ?out ''count'' = of_nat (length (rows df) - missing_count df x)"
    using column_sum_counts [OF assms(3), of "[x, ''count'']" "\<lambda>k. length (group_rows df x k)" "group_keys df x"]
    by (simp add: sum_group_sizes present)
  show ?thesis
    using run keys total
    by (intro exI [where x = ?out]) (simp add: distinct_group_keys set_group_keys)
qed

theorem count_aggregation_total_witness:
  "operator_count_config ''x_field'' = Some (PStr ''operator'')
   \<and> ''operator'' \<in> set (columns operator_table)
   \<and> missing_count operator_table ''operator'' = 1
   \<and> (\<exists>out. fst (prepare_chart_data numeric_agg operator_table operator_count_config) = Some out
         \<and> columns out = [''operator'', ''count'']
         \<and> column_sum out ''count'' = 1)"
proof -
  have x: "operator_count_config ''x_field'' = Some (PStr ''operator'')"
    and a: "cfg_get operator_count_config ''aggregation'' (PStr ''count'') = PStr ''count''"
    and ct: "operator_count_config ''chart_type'' = Some (PStr ''bar'')"
    by (simp_all add: operator_count_config_def cfg_get_def)
  have col: "''operator'' \<in> set (columns operator_table)"
    by (simp add: operator_table_def)
  have miss: "missing_count operator_table ''operator'' = 1"
    by (simp add: missing_count_def column_def operator_table_def cell_at_def)
  have len: "length (rows operator_table) = 2"
    by (simp add: operator_table_def)
  from count_aggregation_total [where agg = numeric_agg, OF x col _ a ct]
  obtain out where "fst (prepare_chart_data numeric_agg operator_table operator_count_config) = Some out"
    and "columns out = [''operator'', ''count'']"
    and "column_sum out ''count'' = of_nat (length (rows operator_table) - missing_count operator_table ''operator'')"
    by auto
  then show ?thesis
    using x col miss len by auto
qed

text \<open>
  C1, as the specification states it, fails on a table with a missing key: of two
  accidents, one without an operator, the count by operator has the single row
  (Air Nostrum, 1), so the \<open>count\<close> column adds up to 1 and the table has 2 rows.
\<close>

theorem count_aggregation_total_counterexample:
  "count_total (fst (prepare_chart_data numeric_agg operator_table operator_count_config)) = Some 1
   \<and> length (rows operator_table) = 2
   \<and> count_total (fst (prepare_chart_data numeric_agg operator_table operator_count_config))
       \<noteq> Some (of_nat (length (rows operator_table)))"
proof -
  have x: "operator_count_config ''x_field'' = Some (PStr ''operator'')"
    and a: "cfg_get operator_count_config ''aggregation'' (PStr ''count'') = PStr ''count''"
    and ct: "operator_count_config ''chart_type'' = Some (PStr ''bar'')"
    by (simp_all add: operator_count_config_def cfg_get_def)
  have col: "''operator'' \<in> set (columns operator_table)"
    by (simp add: operator_table_def)
  have keys: "group_keys operator_table ''operator'' = [Str ''Air Nostrum'']"
    by (simp add: group_keys_def column_def operator_table_def cell_at_def)
  have size: "length (group_rows operator_table ''operator'' (Str ''Air Nostrum'')) = 1"
    by (simp add: group_rows_def operator_table_def cell_at_def)
  have "fst (prepare_chart_data numeric_agg operator_table operator_count_config) =
          Some \<lparr>columns = [''operator'', ''count''],
                rows = [[(''operator'', Str ''Air Nostrum''), (''count'', Num 1)]]\<rparr>"
    using prepare_chart_data_count [where agg = numeric_agg, OF x col _ a ct]
    by (simp add: keys size)
  then have total: "count_total (fst (prepare_chart_data numeric_agg operator_table operator_count_config)) = Some 1"
    by (simp add: count_total_def column_sum_def column_def cell_at_def number_of_def)
  have len: "length (rows operator_table) = 2"
    by (simp add: operator_table_def)
  show ?thesis
    using total len by simp
qed

lemma derive_example_fatalities:
  assumes "parse ''0'' = Some 0" and "parse ''5'' = Some 5" and "parse [] = None"
  shows "derive_column example_table ''fatalities_num'' ''fatalities'' (fatalities_num parse)
           = Inr example_loaded"
  using assms
  by (simp add: derive_column_def assign_def example_table_def example_loaded_def cell_at_def
        fatalities_num_def to_numeric_coerce_def fillna_def)

lemma example_group_keys:
  "group_keys example_loaded ''aircraft_category'' = [Str ''ATR 72-600'', Str ''Dash 8-400'']"
  by (simp add: group_keys_def column_def example_loaded_def cell_at_def cell_key_def)

lemma example_grouped_sum:
  "prepare_chart_data numeric_agg example_loaded example_sum_config =
     (Some example_sums, example_sum_config, [])"
proof -
  have cols: "columns example_loaded = [''aircraft_category'', ''fatalities'', ''fatalities_num'']"
    by (simp add: example_loaded_def)
  have atr: "map (\<lambda>r. cell_at r ''fatalities_num'')
               (group_rows example_loaded ''aircraft_category'' (Str ''ATR 72-600'')) = [Num 0, Num 5]"
    by (simp add: group_rows_def example_loaded_def cell_at_def)
  have dash: "map (\<lambda>r. cell_at r ''fatalities_num'')
               (group_rows example_loaded ''aircraft_category'' (Str ''Dash 8-400'')) = [Num 0]"
    by (simp add: group_rows_def example_loaded_def cell_at_def)
  have sums: "numeric_agg ''sum'' [Num 0, Num 5] = Inr (Num 5)" "numeric_agg ''sum'' [Num 0] = Inr (Num 0)"
    by (simp_all add: numeric_agg_def)
  have agg: "groupby_agg (numeric_agg ''sum'') example_loaded (PStr ''aircraft_category'')
               (PStr ''fatalities_num'') = Inr example_sums"
    by (simp add: groupby_agg_def groupby_def cols example_group_keys atr dash sums example_sums_def)
  show ?thesis
    by (simp add: prepare_chart_data_def prepare_body_def example_sum_config_def Let_def truthy_def agg)
qed

text \<open>
  C6. The coercion of a fatalities string never fails and always gives a number: the
  number the parser reads from the string, and 0 when the parser reads none (the parser
  is pandas' and is a parameter; infinities and float rounding are outside the model).
  With a parser that reads "0" as 0 and "5" as 5 and reads nothing from the empty
  string, the table of example 2 gets the \<open>fatalities_num\<close> values 0, 5 and 0, and the sum
  of \<open>fatalities_num\<close> grouped by \<open>aircraft_category\<close> is ATR 72-600 - 5, Dash 8-400 - 0.
\<close>

theorem fatalities_coercion_total:
  assumes "parse ''0'' = Some 0" and "parse ''5'' = Some 5" and "parse [] = None"
  shows "fatalities_num parse (Str s) = Num (case parse s of None \<Rightarrow> 0 | Some q \<Rightarrow> q)
       \<and> derive_column example_table ''fatalities_num'' ''fatalities'' (fatalities_num parse)
           = Inr example_loaded
       \<and> prepare_chart_data numeric_agg example_loaded example_sum_config
           = (Some example_sums, example_sum_config, [])"
proof -
  have "fatalities_num parse (Str s) = Num (case parse s of None \<Rightarrow> 0 | Some q \<Rightarrow> q)"
    by (simp add: fatalities_num_def to_numeric_coerce_def fillna_def split: option.splits)
  with derive_example_fatalities [OF assms] example_grouped_sum show ?thesis by simp
qed

theorem fatalities_coercion_total_witness:
  "parse_unsigned ''0'' = Some 0 \<and> parse_unsigned ''5'' = Some 5 \<and> parse_unsigned [] = None
   \<and> fatalities_num parse_unsigned (Str ''12'') = Num 12
   \<and> fatalities_num parse_unsigned (Str ''unknown'') = Num 0
   \<and> derive_column example_table ''fatalities_num'' ''fatalities'' (fatalities_num parse_unsigned)
       = Inr example_loaded
   \<and> prepare_chart_data numeric_agg example_loaded example_sum_config
       = (Some example_sums, example_sum_config, [])"
proof -
  have p: "parse_unsigned ''0'' = Some 0" "parse_unsigned ''5'' = Some 5" "parse_unsigned [] = None"
    by (simp_all add: parse_unsigned_def digit_of_def)
  have q: "parse_unsigned ''12'' = Some 12" "parse_unsigned ''unknown'' = None"
    by (simp_all add: parse_unsigned_def digit_of_def)
  from fatalities_coercion_total [OF p, of "''12''"] fatalities_coercion_total [OF p, of "''unknown''"]
  show ?thesis using p q by simp
qed

text \<open>The chart builder: what it stores under \<open>chart_type\<close>, \<open>y_field\<close> and \<open>aggregation\<close>.\<close>

lemma chart_type_needs_y:
  assumes "(t, d) \<in> set CHART_TYPES"
  shows "needs_y d = (t \<noteq> ''histogram'')"
  using assms by (auto simp add: CHART_TYPES_def descr_def)

lemma chart_type_lookup:
  assumes "i < length CHART_TYPES"
  shows "selectbox (map fst CHART_TYPES) i = PStr (fst (CHART_TYPES ! i))"
    and "map_of CHART_TYPES (fst (CHART_TYPES ! i)) = Some (snd (CHART_TYPES ! i))"
proof -
  show "selectbox (map fst CHART_TYPES) i = PStr (fst (CHART_TYPES ! i))"
    using assms by (simp add: selectbox_def)
  have "distinct (map fst CHART_TYPES)"
    by (simp add: CHART_TYPES_def)
  moreover have "(fst (CHART_TYPES ! i), snd (CHART_TYPES ! i)) \<in> set CHART_TYPES"
    using assms by simp
  ultimately show "map_of CHART_TYPES (fst (CHART_TYPES ! i)) = Some (snd (CHART_TYPES ! i))"
    by (simp only: map_of_eq_Some_iff)
qed

lemma selectbox_aggregations: "selectbox AGGREGATIONS k \<noteq> PStr ''none''"
proof
  assume h: "selectbox AGGREGATIONS k = PStr ''none''"
  then have "k < length AGGREGATIONS" and "AGGREGATIONS ! k = ''none''"
    by (simp_all add: selectbox_def split: if_splits)
  then have "''none'' \<in> set AGGREGATIONS"
    by (metis nth_mem)
  then show False by (simp add: AGGREGATIONS_def)
qed

lemma render_chart_builder_stored:
  assumes "chart_type_pick u < length CHART_TYPES" and "add_clicked u"
  shows "\<exists>c. render_chart_builder df is_enhanced now u = Inr (Some c)
           \<and> c ''chart_type'' = Some (PStr (fst (CHART_TYPES ! chart_type_pick u)))
           \<and> c ''y_field'' =
               Some (if needs_y (snd (CHART_TYPES ! chart_type_pick u))
                     then selectbox [''year'', ''month'', ''fatalities_num''] (y_pick u) else PNone)
           \<and> (c ''aggregation'' = Some (PStr ''none'')
                \<longleftrightarrow> fst (CHART_TYPES ! chart_type_pick u) = ''histogram'')"
proof -
  let ?t = "fst (CHART_TYPES ! chart_type_pick u)"
  let ?d = "snd (CHART_TYPES ! chart_type_pick u)"
  have "(?t, ?d) \<in> set CHART_TYPES"
    using assms(1) by simp
  then have ny: "needs_y ?d = (?t \<noteq> ''histogram'')"
    by (rule chart_type_needs_y)
  show ?thesis
    using assms(2) ny selectbox_aggregations
    by (simp add: render_chart_builder_def chart_type_lookup [OF assms(1)] Let_def
          get_numeric_fields_def truthy_def)
qed

text \<open>
  C2, as the specification states it, fails: a bar chart needs a y-field, and for a bar
  chart configuration without a \<open>y_field\<close> entry and a table with rows \<open>generate_chart\<close>
  calls the plotting function with the title and \<open>x\<close> only, and returns its figure.
\<close>

theorem y_field_not_validated_counterexample:
  "bar_no_y_config ''y_field'' = None
   \<and> map_option needs_y (map_of CHART_TYPES ''bar'') = Some True
   \<and> generate_chart px_record (Some fleet_table) bar_no_y_config =
       (Some (''bar'', fleet_table,
              [''title'' \<mapsto> Arg (PStr ''Operators''), ''x'' \<mapsto> Arg (PStr ''operator'')]), [])"
proof -
  have "generate_chart px_record (Some fleet_table) bar_no_y_config =
       (Some (''bar'', fleet_table,
              [''title'' \<mapsto> Arg (PStr ''Operators''), ''x'' \<mapsto> Arg (PStr ''operator'')]), [])"
    by (simp add: generate_chart_def generate_body_def getattr_px_def build_params_def
          bar_no_y_config_def px_record_def CHART_TYPES_def fleet_table_def plotted_def
          truthy_def cfg_get_def Let_def)
  then show ?thesis
    by (simp add: bar_no_y_config_def CHART_TYPES_def descr_def)
qed

text \<open>
  C2, as the code has it. Nothing validates \<open>y_field\<close>. For a table with rows and a
  configuration with a title and an \<open>x_field\<close> but no \<open>y_field\<close> entry, \<open>generate_chart\<close>
  calls the plotting function of the chart type without a \<open>y\<close> argument, with
  \<open>values = 'count'\<close> for pie, sunburst and treemap and without \<open>values\<close> otherwise, and
  returns the figure the plotting function gives. A missing y-field is excluded
  earlier: for a chart type that needs one, the chart builder stores the numeric field
  picked in the form.
\<close>

theorem y_field_not_validated:
  assumes "rows d \<noteq> []"
    and "config ''y_field'' = None"
    and "config ''chart_type'' = Some (PStr t)"
    and "config ''title'' = Some title"
    and "config ''x_field'' = Some x"
    and "px t = Some f"
    and "chart_type_pick u < length CHART_TYPES"
    and "needs_y (snd (CHART_TYPES ! chart_type_pick u))"
    and "y_pick u < 3"
    and "add_clicked u"
  shows "(\<exists>ps. build_params config (PStr t) = Inr ps
            \<and> generate_chart px (Some d) config = plotted (f d ps)
            \<and> ps ''y'' = None
            \<and> ps ''values'' = (if t \<in> set [''pie'', ''sunburst'', ''treemap'']
                                then Some (Arg (PStr ''count'')) else None))
       \<and> (\<exists>c. render_chart_builder df is_enhanced now u = Inr (Some c)
            \<and> c ''y_field'' = Some (PStr ([''year'', ''month'', ''fatalities_num''] ! y_pick u)))"
proof -
  obtain ps where ps: "build_params config (PStr t) = Inr ps"
    using assms(4,5) by (simp add: build_params_def Let_def)
  have call: "generate_chart px (Some d) config = plotted (f d ps)"
    using assms(1,3,6) ps by (simp add: generate_chart_def generate_body_def getattr_px_def)
  have args: "ps ''y'' = None
      \<and> ps ''values'' = (if t \<in> set [''pie'', ''sunburst'', ''treemap'']
                          then Some (Arg (PStr ''count'')) else None)"
    using ps assms(2,4,5) by (auto simp add: build_params_def Let_def truthy_def)
  obtain c where c: "render_chart_builder df is_enhanced now u = Inr (Some c)"
    and y: "c ''y_field'' =
               Some (if needs_y (snd (CHART_TYPES ! chart_type_pick u))
                     then selectbox [''year'', ''month'', ''fatalities_num''] (y_pick u) else PNone)"
    using render_chart_builder_stored [OF assms(7,10), of df is_enhanced now] by blast
  have "c ''y_field'' = Some (PStr ([''year'', ''month'', ''fatalities_num''] ! y_pick u))"
    using y assms(8,9) by (simp add: selectbox_def)
  with ps call args c show ?thesis by blast
qed

theorem y_field_not_validated_witness:
  "rows fleet_table \<noteq> []
   \<and> bar_no_y_config ''y_field'' = None
   \<and> needs_y (snd (CHART_TYPES ! chart_type_pick example_form))
   \<and> (\<exists>ps. generate_chart px_record (Some fleet_table) bar_no_y_config
              = (Some (''bar'', fleet_table, ps), [])
         \<and> ps ''y'' = None \<and> ps ''values'' = None)
   \<and> (\<exists>c. render_chart_builder fleet_table False ''20240101'' example_form = Inr (Some c)
         \<and> c ''y_field'' = Some (PStr ''fatalities_num''))"
proof -
  have r: "rows fleet_table \<noteq> []" by (simp add: fleet_table_def)
  have y: "bar_no_y_config ''y_field'' = None"
    and t: "bar_no_y_config ''chart_type'' = Some (PStr ''bar'')"
    and ti: "bar_no_y_config ''title'' = Some (PStr ''Operators'')"
    and x: "bar_no_y_config ''x_field'' = Some (PStr ''operator'')"
    by (simp_all add: bar_no_y_config_def)
  have f: "px_record ''bar'' = Some (\<lambda>df ps. Inr (''bar'', df, ps))"
    by (simp add: px_record_def CHART_TYPES_def)
  have i: "chart_type_pick example_form < length CHART_TYPES"
    and n: "needs_y (snd (CHART_TYPES ! chart_type_pick example_form))"
    and p: "y_pick example_form < 3"
    and k: "add_clicked example_form"
    by (simp_all add: example_form_def CHART_TYPES_def descr_def)
  have p2: "y_pick example_form = 2" by (simp add: example_form_def)
  from y_field_not_validated
         [where px = px_record and t = "''bar''" and config = bar_no_y_config and u = example_form
            and df = fleet_table and is_enhanced = False and now = "''20240101''",
          OF r y t ti x f i n p k]
  show ?thesis
    using r y n by (auto simp add: plotted_def p2)
qed




end
